theory Spec2Isabelle
  imports Main
begin

section \<open>Strings: the Python string operations the runner uses\<close>

text \<open>
  Strings are byte lists. The file names and URLs the runner builds are ASCII, so
  Python's code points and the bytes of the model coincide on them.
\<close>

definition digit_char :: "nat \<Rightarrow> char" where
  "digit_char d = ''0123456789'' ! d"

text \<open>\<^verbatim>\<open>str(n)\<close> for a non-negative integer: decimal, no leading zero.\<close>

fun str_of_nat :: "nat \<Rightarrow> string" where
  "str_of_nat n = (if n < 10 then [digit_char n] else str_of_nat (n div 10) @ [digit_char (n mod 10)])"

declare str_of_nat.simps [simp del]

text \<open>\<^verbatim>\<open>str(i)\<close> as an f-string renders an int: a minus sign, then the digits.\<close>

definition str_of_int :: "int \<Rightarrow> string" where
  "str_of_int i = (if i < 0 then CHR ''-'' # str_of_nat (nat (- i)) else str_of_nat (nat i))"

definition is_digit :: "char \<Rightarrow> bool" where
  "is_digit c = (c \<in> set ''0123456789'')"

text \<open>\<^verbatim>\<open>int(s)\<close> on a string of decimal digits (the group a \<^verbatim>\<open>\d+\<close> matched).\<close>

definition digit_val :: "char \<Rightarrow> nat" where
  "digit_val c = of_char c - 48"

definition int_of_digits :: "string \<Rightarrow> nat" where
  "int_of_digits s = foldl (\<lambda>acc c. 10 * acc + digit_val c) 0 s"

text \<open>
  \<^verbatim>\<open>urllib.parse.quote(s, safe)\<close>: a byte that is a letter, a digit, one of
  \<^verbatim>\<open>_.-~\<close> or listed in \<^verbatim>\<open>safe\<close> is kept, every other byte becomes
  \<^verbatim>\<open>%XX\<close> with upper-case hexadecimal digits.
\<close>

definition always_safe :: string where
  "always_safe = ''ABCDEFGHIJKLMNOPQRSTUVWXYZabcdefghijklmnopqrstuvwxyz0123456789_.-~''"

definition hex_char :: "nat \<Rightarrow> char" where
  "hex_char d = ''0123456789ABCDEF'' ! d"

definition quote_char :: "string \<Rightarrow> char \<Rightarrow> string" where
  "quote_char safe c =
     (if c \<in> set always_safe \<or> c \<in> set safe then [c]
      else [CHR ''%'', hex_char (of_char c div 16), hex_char (of_char c mod 16)])"

definition quote :: "string \<Rightarrow> string \<Rightarrow> string" where
  "quote s safe = concat (map (quote_char safe) s)"

text \<open>\<^verbatim>\<open>str.lower()\<close> and \<^verbatim>\<open>str.upper()\<close> on ASCII.\<close>

definition lower_char :: "char \<Rightarrow> char" where
  "lower_char c =
     (if 65 \<le> (of_char c :: nat) \<and> (of_char c :: nat) \<le> 90 then char_of ((of_char c :: nat) + 32) else c)"

definition upper_char :: "char \<Rightarrow> char" where
  "upper_char c =
     (if 97 \<le> (of_char c :: nat) \<and> (of_char c :: nat) \<le> 122 then char_of ((of_char c :: nat) - 32) else c)"

definition lower :: "string \<Rightarrow> string" where
  "lower s = map lower_char s"

definition upper :: "string \<Rightarrow> string" where
  "upper s = map upper_char s"

text \<open>\<^verbatim>\<open>sub in s\<close> on strings.\<close>

fun is_prefix_of :: "string \<Rightarrow> string \<Rightarrow> bool" where
  "is_prefix_of [] s = True"
| "is_prefix_of (p # ps) [] = False"
| "is_prefix_of (p # ps) (c # cs) = (p = c \<and> is_prefix_of ps cs)"

fun contains :: "string \<Rightarrow> string \<Rightarrow> bool" where
  "contains sub [] = (sub = [])"
| "contains sub (c # cs) = (is_prefix_of sub (c # cs) \<or> contains sub cs)"

text \<open>\<^verbatim>\<open>s.rstrip("/")\<close>.\<close>

definition rstrip_slash :: "string \<Rightarrow> string" where
  "rstrip_slash s = rev (dropWhile (\<lambda>c. c = CHR ''/'') (rev s))"

text \<open>\<^verbatim>\<open>s.split("/")[-1]\<close>: what follows the last slash (all of s when it has none).\<close>

definition last_segment :: "string \<Rightarrow> string" where
  "last_segment s = rev (takeWhile (\<lambda>c. c \<noteq> CHR ''/'') (rev s))"

text \<open>
  \<^verbatim>\<open>re.search(r"\((\d+)\)", s)\<close>: the leftmost position holding an opening
  parenthesis, one or more digits and a closing parenthesis; group 1 is the digits.
  The greedy \<^verbatim>\<open>\d+\<close> takes every digit that follows, and giving one back cannot help,
  since the character after a shorter run would be a digit.
\<close>

definition paren_digits_at :: "string \<Rightarrow> string option" where
  "paren_digits_at s =
     (case s of
        [] \<Rightarrow> None
      | c # rest \<Rightarrow>
          if c = CHR ''('' then
            (let ds = takeWhile is_digit rest; after = dropWhile is_digit rest
             in case after of
                  [] \<Rightarrow> None
                | a # _ \<Rightarrow> if ds \<noteq> [] \<and> a = CHR '')'' then Some ds else None)
          else None)"

fun re_search_paren_digits :: "string \<Rightarrow> string option" where
  "re_search_paren_digits [] = None"
| "re_search_paren_digits (c # cs) =
     (case paren_digits_at (c # cs) of
        Some ds \<Rightarrow> Some ds
      | None \<Rightarrow> re_search_paren_digits cs)"

section \<open>Catalog file names and their URL encodings\<close>

text \<open>\<^verbatim>\<open>_norm_base(url)\<close>: \<^verbatim>\<open>(url or "").rstrip("/")\<close>.\<close>

definition norm_base :: "string option \<Rightarrow> string" where
  "norm_base url = rstrip_slash (case url of None \<Rightarrow> [] | Some u \<Rightarrow> u)"

text \<open>\<^verbatim>\<open>_image_name_for(cfg, i)\<close> and the \<^verbatim>\<open>fn\<close> of \<^verbatim>\<open>next_images\<close>.\<close>

definition image_name_for :: "int \<Rightarrow> string" where
  "image_name_for i = ''img ('' @ str_of_int i @ '').jpg''"

definition video_name_for :: "int \<Rightarrow> string" where
  "video_name_for i = ''vid ('' @ str_of_int i @ '').mp4''"

text \<open>The quirk test \<^verbatim>\<open>"ruthless" in prefix.lower()\<close>.\<close>

definition is_ruthless :: "string \<Rightarrow> bool" where
  "is_ruthless prefix = contains ''ruthless'' (lower prefix)"

text \<open>The two encoding branches of \<^verbatim>\<open>next_images\<close> (lines 288 to 292).\<close>

definition encode_sequential :: "string \<Rightarrow> int \<Rightarrow> string" where
  "encode_sequential prefix img_index =
     (if is_ruthless prefix then ''img%20('' @ str_of_int img_index @ '').jpg''
      else quote (image_name_for img_index) ''()'')"

text \<open>
  The two encoding branches of \<^verbatim>\<open>get_random_candidate\<close> (lines 625 to 631): the quirk
  branch reads the index back out of the chosen file name, 1 when nothing matches.
\<close>

definition encode_random :: "string \<Rightarrow> string \<Rightarrow> string" where
  "encode_random prefix selected_filename =
     (if is_ruthless prefix then
        (let idx = (case re_search_paren_digits selected_filename of
                      Some ds \<Rightarrow> int (int_of_digits ds)
                    | None \<Rightarrow> 1)
         in ''img%20('' @ str_of_int idx @ '').jpg'')
      else quote selected_filename ''()'')"

text \<open>The only encoding of the preview, \<^verbatim>\<open>image_candidates\<close> (line 411).\<close>

definition encode_preview :: "int \<Rightarrow> string" where
  "encode_preview i = quote (image_name_for i) ''()''"

section \<open>Data model\<close>

text \<open>Python exceptions, as values. The message keeps the fixed part of the source's text.\<close>

datatype error =
    RuntimeError string
  | NameError string
  | ZeroDivisionError
  | HTTPError string
  | KeyError string

text \<open>
  The account configuration (one entry of accounts.json). The keys the runner indexes
  with \<^verbatim>\<open>cfg[...]\<close> are fields, the keys it reads with \<^verbatim>\<open>cfg.get(...)\<close> are
  optional fields. \<^verbatim>\<open>ctype\<close> is the key \<^verbatim>\<open>type\<close>. The key \<^verbatim>\<open>name\<close> is read both
  ways: it is optional, and \<open>cfg_name\<close> below is the subscript, which raises when it is
  missing.
\<close>

record cfg =
  name :: "string option"
  state_prefix :: string
  ctype :: string
  caption_url :: string
  base_url :: "string option"
  video_base_url :: "string option"
  slides_per_post :: "int option"
  max_images :: "int option"
  access_token_env :: "string option"
  ig_user_id_env :: "string option"
  schedule_enabled :: "string option"
  schedule_times :: "string option"

text \<open>
  A local JSON file: the used list \<^verbatim>\<open>{"used": [...]}\<close>, a pointer
  \<^verbatim>\<open>{"last_index": n}\<close>, a status \<^verbatim>\<open>{"status": s, "message": m}\<close> (the time stamp
  is left out), or anything else (\<open>Garbage\<close>: not JSON, or JSON without the key).
\<close>

datatype content =
    Used "string list"
  | LastIndex int
  | Status string string
  | Garbage

text \<open>
  One entry of the remote mirror: a dict whose four keys may each be missing
  (\<^verbatim>\<open>if "video_used" in remote\<close>).
\<close>

record snapshot =
  snap_video_used :: "string list option"
  snap_image_used :: "string list option"
  snap_caption_idx :: "int option"
  snap_image_idx :: "int option"

text \<open>
  The state the runner reads and writes. \<open>files\<close> is the local directory by path.
  \<open>remote\<close> is what \<^verbatim>\<open>load_remote_state(prefix)\<close> returns (None when the mirror is not
  configured, the fetch fails or the document has no entry). \<open>pushes\<close> lists the
  prefixes a background push thread was started for; the thread itself runs outside this
  model. \<open>heads\<close> lists the URLs probed with HEAD, \<open>draws\<close> counts the calls of
  \<^verbatim>\<open>random.choice\<close>, \<open>slept\<close> is the time spent in \<^verbatim>\<open>sleep\<close>, in seconds.
\<close>

record world =
  files :: "string \<rightharpoonup> content"
  remote :: "string \<rightharpoonup> snapshot"
  pushes :: "string list"
  heads :: "string list"
  draws :: nat
  slept :: nat

text \<open>One reply to a readiness poll: the request raised, or the JSON's two status keys.\<close>

datatype poll = PollExc | PollResp "string option" "string option"

text \<open>
  What the outside answers during one run: the caption source (the stripped, non-blank
  lines, or None when the fetch raises), the process environment, the HEAD probe, the
  stream of random draws, the readiness polls by container and attempt, and the
  platform's replies to upload, assembly and publish (None when the call raises or the
  reply has no id).
\<close>

record env =
  caption_lines :: "string \<Rightarrow> string list option"
  getenv :: "string \<Rightarrow> string option"
  url_exists :: "string \<Rightarrow> bool"
  choice :: "nat \<Rightarrow> nat"
  polls :: "string \<Rightarrow> nat \<Rightarrow> poll"
  upload_image_reply :: "string \<Rightarrow> string option"
  upload_reel_reply :: "string \<Rightarrow> string option"
  create_carousel_reply :: "string list \<Rightarrow> string option"
  publish_reply :: "string \<Rightarrow> string option"
  permalink_reply :: "string \<Rightarrow> string option"

section \<open>State helpers\<close>

definition status_path :: "string \<Rightarrow> string" where
  "status_path prefix = prefix @ ''_status.json''"

definition video_used_path :: "string \<Rightarrow> string" where
  "video_used_path prefix = prefix @ ''_video_used.json''"

definition image_used_path :: "string \<Rightarrow> string" where
  "image_used_path prefix = prefix @ ''_image_used.json''"

definition index_path :: "string \<Rightarrow> string \<Rightarrow> string" where
  "index_path prefix key = prefix @ ''_'' @ key @ ''.json''"

definition save_status :: "string \<Rightarrow> string \<Rightarrow> string \<Rightarrow> world \<Rightarrow> world" where
  "save_status prefix status message w =
     w\<lparr>files := (files w)(status_path prefix \<mapsto> Status status message)\<rparr>"

text \<open>\<^verbatim>\<open>threading.Thread(target=push_state_bg, args=(prefix,)).start()\<close>\<close>

definition start_push :: "string \<Rightarrow> world \<Rightarrow> world" where
  "start_push prefix w = w\<lparr>pushes := pushes w @ [prefix]\<rparr>"

definition save_last_index :: "string \<Rightarrow> string \<Rightarrow> int \<Rightarrow> bool \<Rightarrow> world \<Rightarrow> world" where
  "save_last_index prefix key idx sync w =
     (let w1 = w\<lparr>files := (files w)(index_path prefix key \<mapsto> LastIndex idx)\<rparr>
      in if sync then start_push prefix w1 else w1)"

definition save_used_list :: "string \<Rightarrow> string list \<Rightarrow> bool \<Rightarrow> world \<Rightarrow> world" where
  "save_used_list prefix used sync w =
     (let w1 = w\<lparr>files := (files w)(video_used_path prefix \<mapsto> Used used)\<rparr>
      in if sync then start_push prefix w1 else w1)"

definition save_image_used_list :: "string \<Rightarrow> string list \<Rightarrow> bool \<Rightarrow> world \<Rightarrow> world" where
  "save_image_used_list prefix used sync w =
     (let w1 = w\<lparr>files := (files w)(image_used_path prefix \<mapsto> Used used)\<rparr>
      in if sync then start_push prefix w1 else w1)"

text \<open>\<^verbatim>\<open>if not remote: return\<close>: None and the empty dict are both falsy.\<close>

definition snapshot_empty :: "snapshot \<Rightarrow> bool" where
  "snapshot_empty r =
     (snap_video_used r = None \<and> snap_image_used r = None \<and>
      snap_caption_idx r = None \<and> snap_image_idx r = None)"

definition restore_from_remote_if_needed :: "string \<Rightarrow> world \<Rightarrow> world" where
  "restore_from_remote_if_needed prefix w =
     (if files w (video_used_path prefix) \<noteq> None \<or> files w (image_used_path prefix) \<noteq> None
      then w
      else case remote w prefix of
        None \<Rightarrow> w
      | Some r \<Rightarrow>
          if snapshot_empty r then w
          else
            (let w1 = (case snap_video_used r of
                         Some u \<Rightarrow> save_used_list prefix u False w | None \<Rightarrow> w);
                 w2 = (case snap_image_used r of
                         Some u \<Rightarrow> save_image_used_list prefix u False w1 | None \<Rightarrow> w1);
                 w3 = (case snap_caption_idx r of
                         Some i \<Rightarrow> save_last_index prefix ''caption'' i False w2 | None \<Rightarrow> w2)
             in (case snap_image_idx r of
                   Some i \<Rightarrow> save_last_index prefix ''image'' i False w3 | None \<Rightarrow> w3)))"

text \<open>
  The three loaders: one recovery attempt when the file is missing, then the file's
  value, or the default when the file is still missing, is not JSON or lacks the key.
\<close>

definition load_last_index :: "string \<Rightarrow> string \<Rightarrow> world \<Rightarrow> int \<times> world" where
  "load_last_index prefix key w =
     (let fn = index_path prefix key;
          w1 = (if files w fn = None then restore_from_remote_if_needed prefix w else w)
      in case files w1 fn of
           Some (LastIndex i) \<Rightarrow> (i, w1)
         | _ \<Rightarrow> (0, w1))"

definition load_used_list :: "string \<Rightarrow> world \<Rightarrow> string list \<times> world" where
  "load_used_list prefix w =
     (let fn = video_used_path prefix;
          w1 = (if files w fn = None then restore_from_remote_if_needed prefix w else w)
      in case files w1 fn of
           Some (Used u) \<Rightarrow> (u, w1)
         | _ \<Rightarrow> ([], w1))"

definition image_used_list :: "string \<Rightarrow> world \<Rightarrow> string list \<times> world" where
  "image_used_list prefix w =
     (let fn = image_used_path prefix;
          w1 = (if files w fn = None then restore_from_remote_if_needed prefix w else w)
      in case files w1 fn of
           Some (Used u) \<Rightarrow> (u, w1)
         | _ \<Rightarrow> ([], w1))"

section \<open>Sequential selection\<close>

text \<open>\<^verbatim>\<open>cfg.get(key, default)\<close> on an optional field.\<close>

definition get_or :: "'a option \<Rightarrow> 'a \<Rightarrow> 'a" where
  "get_or v d = (case v of Some x \<Rightarrow> x | None \<Rightarrow> d)"

definition next_caption :: "cfg \<Rightarrow> env \<Rightarrow> world \<Rightarrow> (error + string) \<times> world" where
  "next_caption c e w =
     (case caption_lines e (caption_url c) of
        None \<Rightarrow> (Inl (RuntimeError ''Failed to fetch caption_url''), w)
      | Some lines \<Rightarrow>
          if lines = [] then (Inl (RuntimeError ''Caption list is empty.''), w)
          else
            (let (idx, w1) = load_last_index (state_prefix c) ''caption'' w;
                 caption = lines ! nat (idx mod int (length lines))
             in (Inr caption, save_last_index (state_prefix c) ''caption'' (idx + 1) True w1)))"

text \<open>
  \<^verbatim>\<open>next_images\<close>. Python's \<^verbatim>\<open>%\<close> takes the sign of the divisor, as \<open>mod\<close> on
  \<open>int\<close> does, and raises on a zero divisor: with \<^verbatim>\<open>max_images = 0\<close> the loop body
  raises when it runs and line 295 raises when it does not.
\<close>

definition next_images :: "cfg \<Rightarrow> world \<Rightarrow> (error + string list) \<times> world" where
  "next_images c w =
     (let count = get_or (slides_per_post c) 1;
          (last, w1) = load_last_index (state_prefix c) ''image'' w;
          max_images = get_or (max_images c) 10000;
          base = norm_base (base_url c)
      in if base = [] then (Inl (RuntimeError ''Missing base_url for carousel.''), w1)
         else if max_images = 0 then (Inl ZeroDivisionError, w1)
         else
           (let urls = map (\<lambda>i. base @ ''/'' @
                               encode_sequential (state_prefix c) (((last + i - 1) mod max_images) + 1))
                           [1..count]
            in (Inr urls,
                save_last_index (state_prefix c) ''image''
                  ((last + count - 1) mod max_images + 1) True w1)))"

section \<open>Random selection and marking\<close>

datatype kind = Image | Video

text \<open>
  \<^verbatim>\<open>cfg['name']\<close>, the subscript in the messages of lines 596, 737, 761 and 792:
  KeyError when the account has no name.
\<close>

definition cfg_name :: "cfg \<Rightarrow> error + string" where
  "cfg_name c = (case name c of None \<Rightarrow> Inl (KeyError ''name'') | Some n \<Rightarrow> Inr n)"

text \<open>The catalog: steps 1 of \<^verbatim>\<open>get_random_candidate\<close>, and \<^verbatim>\<open>all_files\<close> of \<^verbatim>\<open>video_candidates\<close>.\<close>

definition catalog :: "cfg \<Rightarrow> kind \<Rightarrow> string list" where
  "catalog c k =
     (case k of
        Image \<Rightarrow> map image_name_for [1..get_or (max_images c) 10000]
      | Video \<Rightarrow> ''vid.mp4'' # map video_name_for [1..get_or (max_images c) 200])"

definition used_path :: "kind \<Rightarrow> string \<Rightarrow> string" where
  "used_path k prefix = (case k of Image \<Rightarrow> image_used_path prefix | Video \<Rightarrow> video_used_path prefix)"

definition load_used :: "kind \<Rightarrow> string \<Rightarrow> world \<Rightarrow> string list \<times> world" where
  "load_used k prefix w = (case k of Image \<Rightarrow> image_used_list prefix w | Video \<Rightarrow> load_used_list prefix w)"

definition reset_used :: "kind \<Rightarrow> string \<Rightarrow> world \<Rightarrow> world" where
  "reset_used k prefix w =
     (case k of Image \<Rightarrow> save_image_used_list prefix [] True w | Video \<Rightarrow> save_used_list prefix [] True w)"

text \<open>Step 5: the URL of a chosen file name.\<close>

definition candidate_url :: "cfg \<Rightarrow> kind \<Rightarrow> string \<Rightarrow> string" where
  "candidate_url c k selected_filename =
     (case k of
        Image \<Rightarrow> norm_base (base_url c) @ ''/'' @ encode_random (state_prefix c) selected_filename
      | Video \<Rightarrow> norm_base (video_base_url c) @ ''/'' @ quote selected_filename ''()'')"

text \<open>
  The loop of step 4, \<^verbatim>\<open>while attempts < max_check_attempts\<close>, by the attempts left.
  \<^verbatim>\<open>random.choice(unused)\<close> is the next draw of the environment, taken modulo the
  length; \<^verbatim>\<open>unused.remove(x)\<close> drops the first occurrence.
\<close>

fun probe_loop :: "cfg \<Rightarrow> kind \<Rightarrow> env \<Rightarrow> nat \<Rightarrow> string list \<Rightarrow> world \<Rightarrow> (string \<times> string) option \<times> world" where
  "probe_loop c k e 0 unused w = (None, w)"
| "probe_loop c k e (Suc n) unused w =
     (if unused = [] then (None, w)
      else
        (let selected_filename = unused ! (choice e (draws w) mod length unused);
             w1 = w\<lparr>draws := Suc (draws w)\<rparr>;
             url = candidate_url c k selected_filename;
             w2 = w1\<lparr>heads := heads w1 @ [url]\<rparr>
         in if url_exists e url then (Some (url, selected_filename), w2)
            else probe_loop c k e n (remove1 selected_filename unused) w2))"

text \<open>
  \<^verbatim>\<open>get_random_candidate(cfg, kind)\<close>: a pair (url, filename), or None. Step 3 formats
  its message with \<^verbatim>\<open>cfg['name']\<close> before it resets, so for an account without a name
  the call raises there and resets nothing.
\<close>

definition get_random_candidate ::
  "cfg \<Rightarrow> kind \<Rightarrow> env \<Rightarrow> world \<Rightarrow> (error + (string \<times> string) option) \<times> world" where
  "get_random_candidate c k e w =
     (let prefix = state_prefix c;
          items = catalog c k;
          (used, w1) = load_used k prefix w;
          unused = filter (\<lambda>x. x \<notin> set used) items
      in if unused = [] then
           (case cfg_name c of
              Inl err \<Rightarrow> (Inl err, w1)
            | Inr _ \<Rightarrow>
                (let w2 = reset_used k prefix w1
                 in if items = [] then (Inr None, w2)
                    else (let (r, w3) = probe_loop c k e 50 items w2 in (Inr r, w3))))
         else (let (r, w3) = probe_loop c k e 50 unused w1 in (Inr r, w3)))"

text \<open>
  The marking steps. \<^verbatim>\<open>list(used)\<close> of a Python set has no specified order; the model
  keeps the stored order, without duplicates, and puts a new name first.
\<close>

definition mark_video_used :: "cfg \<Rightarrow> string \<Rightarrow> world \<Rightarrow> world" where
  "mark_video_used c selected_filename w =
     (let (used, w1) = load_used_list (state_prefix c) w;
          fname = last_segment selected_filename
      in save_used_list (state_prefix c) (List.insert fname (remdups used)) True w1)"

definition mark_images_used :: "cfg \<Rightarrow> string list \<Rightarrow> world \<Rightarrow> world" where
  "mark_images_used c selected_urls w =
     (let (used, w1) = image_used_list (state_prefix c) w
      in save_image_used_list (state_prefix c)
           (fold (\<lambda>u acc. List.insert (last_segment u) acc) selected_urls (remdups used)) True w1)"

section \<open>Readiness polling\<close>

text \<open>\<^verbatim>\<open>(resp.get("status_code") or resp.get("status") or "").upper()\<close>\<close>

definition str_or :: "string option \<Rightarrow> string \<Rightarrow> string" where
  "str_or a b = (case a of None \<Rightarrow> b | Some s \<Rightarrow> if s = [] then b else s)"

definition poll_status :: "string option \<Rightarrow> string option \<Rightarrow> string" where
  "poll_status status_code status = upper (str_or status_code (str_or status []))"

text \<open>
  \<^verbatim>\<open>wait_until_ready\<close>: the loop \<^verbatim>\<open>for i in range(max_attempts)\<close> by the attempts left,
  \<open>i\<close> the attempt's number. After the loop, line 98 returns \<^verbatim>\<open>False, last_resp\<close>; no
  line of the file binds \<^verbatim>\<open>last_resp\<close>, so evaluating it raises NameError.
\<close>

fun wait_loop :: "(nat \<Rightarrow> poll) \<Rightarrow> nat \<Rightarrow> nat \<Rightarrow> nat \<Rightarrow> world \<Rightarrow> (error + bool \<times> poll) \<times> world" where
  "wait_loop reply delay 0 i w = (Inl (NameError ''name 'last_resp' is not defined''), w)"
| "wait_loop reply delay (Suc n) i w =
     (case reply i of
        PollExc \<Rightarrow> wait_loop reply delay n (Suc i) (w\<lparr>slept := slept w + delay\<rparr>)
      | PollResp status_code status \<Rightarrow>
          if poll_status status_code status = ''FINISHED'' then (Inr (True, reply i), w)
          else if poll_status status_code status = ''ERROR'' then (Inr (False, reply i), w)
          else wait_loop reply delay n (Suc i) (w\<lparr>slept := slept w + delay\<rparr>))"

definition wait_until_ready :: "string \<Rightarrow> env \<Rightarrow> nat \<Rightarrow> nat \<Rightarrow> world \<Rightarrow> (error + bool \<times> poll) \<times> world" where
  "wait_until_ready creation_id e max_attempts delay w = wait_loop (polls e creation_id) delay max_attempts 0 w"

section \<open>The publish pipeline\<close>

text \<open>\<^verbatim>\<open>_cfg_token_igid\<close>: a missing or empty name or value raises.\<close>

definition cfg_token_igid :: "cfg \<Rightarrow> env \<Rightarrow> error + string \<times> string" where
  "cfg_token_igid c e =
     (let tok_env = str_or (access_token_env c) []; usr_env = str_or (ig_user_id_env c) []
      in if tok_env = [] \<or> usr_env = []
         then Inl (RuntimeError ''Config missing 'access_token_env' or 'ig_user_id_env'.'')
         else
           (let token = str_or (getenv e tok_env) []; ig_id = str_or (getenv e usr_env) []
            in if token = [] then Inl (RuntimeError ''Missing environment var'')
               else if ig_id = [] then Inl (RuntimeError ''Missing environment var'')
               else Inr (token, ig_id)))"

definition upload_image :: "string \<Rightarrow> cfg \<Rightarrow> env \<Rightarrow> error + string" where
  "upload_image url c e =
     (case cfg_token_igid c e of
        Inl err \<Rightarrow> Inl err
      | Inr _ \<Rightarrow>
          (case upload_image_reply e url of
             None \<Rightarrow> Inl (RuntimeError ''Instagram API Error'')
           | Some cid \<Rightarrow> Inr cid))"

definition upload_reel :: "string \<Rightarrow> cfg \<Rightarrow> env \<Rightarrow> error + string" where
  "upload_reel url c e =
     (case cfg_token_igid c e of
        Inl err \<Rightarrow> Inl err
      | Inr _ \<Rightarrow>
          (case upload_reel_reply e url of
             None \<Rightarrow> Inl (HTTPError ''upload_reel'')
           | Some cid \<Rightarrow> Inr cid))"

definition create_carousel :: "string list \<Rightarrow> cfg \<Rightarrow> env \<Rightarrow> error + string" where
  "create_carousel child_ids c e =
     (case cfg_token_igid c e of
        Inl err \<Rightarrow> Inl err
      | Inr _ \<Rightarrow>
          (case create_carousel_reply e child_ids of
             None \<Rightarrow> Inl (RuntimeError ''Carousel container creation error'')
           | Some cid \<Rightarrow> if cid = [] then Inl (RuntimeError ''Carousel container creation error'') else Inr cid))"

definition publish_creation :: "string \<Rightarrow> cfg \<Rightarrow> env \<Rightarrow> error + string" where
  "publish_creation creation_id c e =
     (case cfg_token_igid c e of
        Inl err \<Rightarrow> Inl err
      | Inr _ \<Rightarrow>
          (case publish_reply e creation_id of
             None \<Rightarrow> Inl (RuntimeError ''media_publish error'')
           | Some media_id \<Rightarrow> if media_id = [] then Inl (RuntimeError ''media_publish error'') else Inr media_id))"

text \<open>\<^verbatim>\<open>fetch_permalink\<close> never raises: the empty string stands for no permalink.\<close>

definition fetch_permalink :: "string \<Rightarrow> env \<Rightarrow> string" where
  "fetch_permalink media_id e = str_or (permalink_reply e media_id) []"

text \<open>
  The upload loop of the carousel branch (lines 704 to 717), \<open>i\<close> the slide's number
  and \<open>n_total\<close> their count.
\<close>

fun upload_all :: "cfg \<Rightarrow> env \<Rightarrow> nat \<Rightarrow> nat \<Rightarrow> string list \<Rightarrow> string list \<Rightarrow> world \<Rightarrow> (error + string list) \<times> world" where
  "upload_all c e i n_total [] child_ids w = (Inr child_ids, w)"
| "upload_all c e i n_total (u # us) child_ids w =
     (let w1 = save_status (state_prefix c) ''running''
                 (''Uploading image '' @ str_of_nat i @ ''/'' @ str_of_nat n_total @ ''...'') w
      in case upload_image u c e of
           Inl err \<Rightarrow> (Inl err, w1)
         | Inr cid \<Rightarrow>
             (case cfg_token_igid c e of
                Inl err \<Rightarrow> (Inl err, w1)
              | Inr _ \<Rightarrow>
                  (let w2 = save_status (state_prefix c) ''running''
                              (''Verifying image '' @ str_of_nat i @ ''/'' @ str_of_nat n_total @ ''...'') w1
                   in case wait_until_ready cid e 600 2 w2 of
                        (Inl err, w3) \<Rightarrow> (Inl err, w3)
                      | (Inr (success, resp), w3) \<Rightarrow>
                          if success then upload_all c e (Suc i) n_total us (child_ids @ [cid]) w3
                          else (Inl (RuntimeError ''Media container failed readiness.''), w3))))"

text \<open>The draws of a scheduled carousel (lines 678 to 681): a draw that finds nothing adds nothing.\<close>

fun pick_random_images :: "cfg \<Rightarrow> env \<Rightarrow> nat \<Rightarrow> string list \<Rightarrow> world \<Rightarrow> (error + string list) \<times> world" where
  "pick_random_images c e 0 selected_urls w = (Inr selected_urls, w)"
| "pick_random_images c e (Suc n) selected_urls w =
     (case get_random_candidate c Image e w of
        (Inl err, w1) \<Rightarrow> (Inl err, w1)
      | (Inr (Some (url, filename)), w1) \<Rightarrow> pick_random_images c e n (selected_urls @ [url]) w1
      | (Inr None, w1) \<Rightarrow> pick_random_images c e n selected_urls w1)"

text \<open>\<^verbatim>\<open>list(dict.fromkeys(xs))\<close>: the first occurrence of each element, in order.\<close>

definition dedup_first :: "string list \<Rightarrow> string list" where
  "dedup_first xs = rev (remdups (rev xs))"

text \<open>
  \<^verbatim>\<open>next_video_shim\<close>: \<^verbatim>\<open>video_candidates(cfg, page=1, page_size=1, include_used=False)\<close>
  and the URL of its first item, if any.
\<close>

definition next_video_shim :: "cfg \<Rightarrow> world \<Rightarrow> string option \<times> world" where
  "next_video_shim c w =
     (if ctype c \<noteq> ''reel'' then (None, w)
      else
        (let base = norm_base (video_base_url c)
         in if base = [] then (None, w)
            else
              (let (used, w1) = load_used_list (state_prefix c) w;
                   ordered = filter (\<lambda>f. f \<notin> set used) (catalog c Video)
               in case ordered of
                    [] \<Rightarrow> (None, w1)
                  | fname # _ \<Rightarrow> (Some (base @ ''/'' @ quote fname ''()''), w1))))"

datatype run_mode = Manual | Schedule

text \<open>The selection of the carousel branch (lines 668 to 699): the images and the caption.\<close>

definition select_carousel :: "cfg \<Rightarrow> run_mode \<Rightarrow> env \<Rightarrow> world \<Rightarrow> (error + string list \<times> string) \<times> world" where
  "select_carousel c m e w =
     (case m of
        Schedule \<Rightarrow>
          (let count = nat (get_or (slides_per_post c) 1)
           in case pick_random_images c e count [] w of
                (Inl err, w1) \<Rightarrow> (Inl err, w1)
              | (Inr picked, w1) \<Rightarrow>
                  (let selected_urls = dedup_first picked
                   in if selected_urls = [] then (Inl (RuntimeError ''No random images available.''), w1)
                      else
                        (case next_caption c e w1 of
                           (Inl err, w2) \<Rightarrow> (Inl err, w2)
                         | (Inr cap, w2) \<Rightarrow> (Inr (selected_urls, cap), w2))))
      | Manual \<Rightarrow>
          (case next_images c w of
             (Inl err, w1) \<Rightarrow> (Inl err, w1)
           | (Inr imgs, w1) \<Rightarrow>
               (case next_caption c e w1 of
                  (Inl err, w2) \<Rightarrow> (Inl err, w2)
                | (Inr cap, w2) \<Rightarrow> (Inr (imgs, cap), w2))))"

text \<open>
  The choice of the video in the reel branch (lines 745 to 763). The manual reset formats
  its message with \<^verbatim>\<open>cfg['name']\<close> first (line 761).
\<close>

definition pick_video :: "cfg \<Rightarrow> run_mode \<Rightarrow> env \<Rightarrow> world \<Rightarrow> (error + string option) \<times> world" where
  "pick_video c m e w =
     (case m of
        Schedule \<Rightarrow>
          (case get_random_candidate c Video e w of
             (Inl err, w1) \<Rightarrow> (Inl err, w1)
           | (Inr (Some (url, filename)), w1) \<Rightarrow> (Inr (Some url), w1)
           | (Inr None, w1) \<Rightarrow> (Inr None, w1))
      | Manual \<Rightarrow>
          (case next_video_shim c w of
             (Some url, w1) \<Rightarrow> (Inr (Some url), w1)
           | (None, w1) \<Rightarrow>
               (case cfg_name c of
                  Inl err \<Rightarrow> (Inl err, w1)
                | Inr _ \<Rightarrow>
                    (let (vid_cand, w2) = next_video_shim c (save_used_list (state_prefix c) [] True w1)
                     in (Inr vid_cand, w2)))))"

text \<open>The selection of the reel branch (lines 743 to 768): the video's URL and the caption.\<close>

definition select_reel :: "cfg \<Rightarrow> run_mode \<Rightarrow> env \<Rightarrow> world \<Rightarrow> (error + string \<times> string) \<times> world" where
  "select_reel c m e w =
     (let w0 = save_status (state_prefix c) ''running'' ''Selecting video...'' w
      in case pick_video c m e w0 of
           (Inl err, w1) \<Rightarrow> (Inl err, w1)
         | (Inr None, w1) \<Rightarrow> (Inl (RuntimeError ''No content available''), w1)
         | (Inr (Some url), w1) \<Rightarrow>
             if url = [] then (Inl (RuntimeError ''No content available''), w1)
             else
               (case next_caption c e w1 of
                  (Inl err, w2) \<Rightarrow> (Inl err, w2)
                | (Inr cap, w2) \<Rightarrow> (Inr (url, cap), w2)))"

text \<open>
  The carousel branch up to and including \<^verbatim>\<open>publish_creation\<close> (lines 668 to 723),
  that is, every step before the comment: the images and the media id.
\<close>

definition carousel_to_publish :: "cfg \<Rightarrow> run_mode \<Rightarrow> env \<Rightarrow> world \<Rightarrow> (error + string list \<times> string) \<times> world" where
  "carousel_to_publish c m e w =
     (let prefix = state_prefix c
      in case select_carousel c m e w of
           (Inl err, w1) \<Rightarrow> (Inl err, w1)
         | (Inr (imgs, cap), w1) \<Rightarrow>
             (case upload_all c e 1 (length imgs) imgs [] w1 of
                (Inl err, w2) \<Rightarrow> (Inl err, w2)
              | (Inr child_ids, w2) \<Rightarrow>
                  (let w3 = save_status prefix ''running'' ''Creating carousel...'' w2
                   in case create_carousel child_ids c e of
                        Inl err \<Rightarrow> (Inl err, w3)
                      | Inr creation_id \<Rightarrow>
                          (let w4 = save_status prefix ''running'' ''Publishing carousel...'' w3
                           in case publish_creation creation_id c e of
                                Inl err \<Rightarrow> (Inl err, w4)
                              | Inr media_id \<Rightarrow> (Inr (imgs, media_id), w4)))))"

text \<open>The reel branch up to and including \<^verbatim>\<open>publish_creation\<close> (lines 743 to 780).\<close>

definition reel_to_publish :: "cfg \<Rightarrow> run_mode \<Rightarrow> env \<Rightarrow> world \<Rightarrow> (error + string \<times> string) \<times> world" where
  "reel_to_publish c m e w =
     (let prefix = state_prefix c
      in case select_reel c m e w of
           (Inl err, w1) \<Rightarrow> (Inl err, w1)
         | (Inr (vid_cand, cap), w1) \<Rightarrow>
             (let w2 = save_status prefix ''running'' ''Uploading video...'' w1
              in case upload_reel vid_cand c e of
                   Inl err \<Rightarrow> (Inl err, w2)
                 | Inr creation_id \<Rightarrow>
                     (case cfg_token_igid c e of
                        Inl err \<Rightarrow> (Inl err, w2)
                      | Inr _ \<Rightarrow>
                          (let w3 = save_status prefix ''running'' ''Processing video...'' w2
                           in case wait_until_ready creation_id e 600 2 w3 of
                                (Inl err, w4) \<Rightarrow> (Inl err, w4)
                              | (Inr (success, resp), w4) \<Rightarrow>
                                  if \<not> success then (Inl (RuntimeError ''Reel container failed readiness.''), w4)
                                  else
                                    (let w5 = save_status prefix ''running'' ''Publishing reel...'' w4
                                     in case publish_creation creation_id c e of
                                          Inl err \<Rightarrow> (Inl err, w5)
                                        | Inr media_id \<Rightarrow> (Inr (vid_cand, media_id), w5))))))"

text \<open>
  The body of the \<^verbatim>\<open>try\<close> of \<^verbatim>\<open>run_account\<close>: the media id and the permalink, or the
  exception raised. The scheduled defaults \<^verbatim>\<open>hide_likes\<close> and \<^verbatim>\<open>first_comment\<close> are
  constants; \<^verbatim>\<open>post_comment\<close> catches its own failures and writes no state. After the
  marking and the success status, lines 737 and 792 format their message with
  \<^verbatim>\<open>cfg['name']\<close>.
\<close>

definition run_account_body :: "cfg \<Rightarrow> run_mode \<Rightarrow> env \<Rightarrow> world \<Rightarrow> (error + string \<times> string) \<times> world" where
  "run_account_body c m e w =
     (let prefix = state_prefix c
      in if ctype c = ''carousel'' then
           (case carousel_to_publish c m e w of
              (Inl err, w4) \<Rightarrow> (Inl err, w4)
            | (Inr (imgs, media_id), w4) \<Rightarrow>
                (let permalink = fetch_permalink media_id e;
                     w5 = (case m of Schedule \<Rightarrow> mark_images_used c imgs w4 | Manual \<Rightarrow> w4);
                     w6 = save_status prefix ''success'' ''Carousel published'' w5
                 in case cfg_name c of
                      Inl err \<Rightarrow> (Inl err, w6)
                    | Inr _ \<Rightarrow> (Inr (media_id, permalink), w6)))
         else
           (case reel_to_publish c m e w of
              (Inl err, w5) \<Rightarrow> (Inl err, w5)
            | (Inr (vid_cand, media_id), w5) \<Rightarrow>
                (let permalink = fetch_permalink media_id e;
                     w6 = (case m of Schedule \<Rightarrow> mark_video_used c vid_cand w5 | Manual \<Rightarrow> w5);
                     w7 = save_status prefix ''success'' ''Reel published'' w6
                 in case cfg_name c of
                      Inl err \<Rightarrow> (Inl err, w7)
                    | Inr _ \<Rightarrow> (Inr (media_id, permalink), w7))))"

text \<open>The text \<^verbatim>\<open>str(e)\<close> of an exception.\<close>

definition error_text :: "error \<Rightarrow> string" where
  "error_text err =
     (case err of
        RuntimeError s \<Rightarrow> s
      | NameError s \<Rightarrow> s
      | ZeroDivisionError \<Rightarrow> ''integer modulo by zero''
      | HTTPError s \<Rightarrow> s
      | KeyError s \<Rightarrow> [CHR 0x27] @ s @ [CHR 0x27])"

text \<open>
  \<^verbatim>\<open>run_account\<close>: the first status, the body, and the \<^verbatim>\<open>except\<close> clause, which writes
  the error status and returns None. The two notification calls go to a collaborator
  that keeps no state of the runner.
\<close>

definition run_account :: "cfg \<Rightarrow> run_mode \<Rightarrow> env \<Rightarrow> world \<Rightarrow> (string \<times> string) option \<times> world" where
  "run_account c m e w =
     (let w0 = save_status (state_prefix c) ''running'' ''Starting automation...'' w
      in case run_account_body c m e w0 of
           (Inl err, w1) \<Rightarrow> (None, save_status (state_prefix c) ''error'' (error_text err) w1)
         | (Inr r, w1) \<Rightarrow> (Some r, w1))"


section \<open>The scheduler\<close>

text \<open>
  \<^verbatim>\<open>str.strip()\<close>: white space off both ends. Of the characters below 256, Python's
  \<^verbatim>\<open>str.isspace\<close> holds for the space, 0x09 to 0x0D, 0x1C to 0x1F, 0x85 and 0xA0.
\<close>

definition is_space :: "char \<Rightarrow> bool" where
  "is_space c = (c \<in> set [CHR '' '', CHR 0x09, CHR 0x0A, CHR 0x0B, CHR 0x0C, CHR 0x0D,
                           CHR 0x1C, CHR 0x1D, CHR 0x1E, CHR 0x1F, CHR 0x85, CHR 0xA0])"

definition strip :: "string \<Rightarrow> string" where
  "strip s = rev (dropWhile is_space (rev (dropWhile is_space s)))"

text \<open>\<^verbatim>\<open>s.split(d)\<close> with a one-character separator: never an empty list.\<close>

fun split_on :: "char \<Rightarrow> string \<Rightarrow> string list" where
  "split_on d [] = [[]]"
| "split_on d (c # cs) =
     (if c = d then [] # split_on d cs
      else (case split_on d cs of
              [] \<Rightarrow> [[c]]
            | x # xs \<Rightarrow> (c # x) # xs))"

text \<open>
  \<^verbatim>\<open>int(s)\<close> on a string: white space around, an optional sign, then digits, where
  single underscores may stand between digits. None is ValueError.
\<close>

fun underscores_ok :: "string \<Rightarrow> bool" where
  "underscores_ok [] = True"
| "underscores_ok [c] = is_digit c"
| "underscores_ok (c # d # cs) =
     (if is_digit c then underscores_ok (d # cs)
      else c = CHR ''_'' \<and> is_digit d \<and> underscores_ok (d # cs))"

definition py_int :: "string \<Rightarrow> int option" where
  "py_int s =
     (let t = strip s;
          (neg, ds) = (case t of
                         [] \<Rightarrow> (False, [])
                       | c # r \<Rightarrow> if c = CHR ''-'' then (True, r)
                                  else if c = CHR ''+'' then (False, r) else (False, t))
      in case ds of
           [] \<Rightarrow> None
         | c # _ \<Rightarrow>
             if is_digit c \<and> underscores_ok ds
             then Some (if neg then - int (int_of_digits (filter is_digit ds))
                        else int (int_of_digits (filter is_digit ds)))
             else None)"

text \<open>
  One entry of \<^verbatim>\<open>parse_account_times\<close>: \<^verbatim>\<open>h, m = map(int, p.split(':'))\<close> raises, and
  the entry is skipped, unless there are exactly two parts and both are integers.
\<close>

definition parse_time_entry :: "string \<Rightarrow> (int \<times> int) option" where
  "parse_time_entry p =
     (if CHR '':'' \<in> set p then
        (case split_on CHR '':'' p of
           [a, b] \<Rightarrow>
             (case (py_int a, py_int b) of
                (Some h, Some m) \<Rightarrow>
                  if 0 \<le> h \<and> h \<le> 23 \<and> 0 \<le> m \<and> m \<le> 59 then Some (h, m) else None
              | _ \<Rightarrow> None)
         | _ \<Rightarrow> None)
      else None)"

definition parse_account_times :: "string option \<Rightarrow> (int \<times> int) list option" where
  "parse_account_times time_str =
     (case time_str of
        None \<Rightarrow> None
      | Some s \<Rightarrow>
          if strip s = [] then None
          else
            (let times = List.map_filter parse_time_entry
                           (filter (\<lambda>p. p \<noteq> []) (map strip (split_on CHR '','' s)))
             in if times = [] then None else Some times))"

text \<open>
  One pass of the \<^verbatim>\<open>for acct in accounts\<close> loop of \<^verbatim>\<open>run_schedule_loop\<close> at the
  wall-clock time \<open>hour:minute\<close>: the accounts a run was launched for, in order, and
  the updated \<^verbatim>\<open>last_triggers\<close>.
\<close>

fun tick_accounts ::
  "(int \<times> int) list \<Rightarrow> int \<Rightarrow> int \<Rightarrow> cfg list \<Rightarrow> (string \<rightharpoonup> int) \<Rightarrow> cfg list \<times> (string \<rightharpoonup> int)" where
  "tick_accounts global_times hour minute [] last_triggers = ([], last_triggers)"
| "tick_accounts global_times hour minute (acct # rest) last_triggers =
     (if schedule_enabled acct \<noteq> Some ''on''
      then tick_accounts global_times hour minute rest last_triggers
      else
        (let nm = get_or (name acct) ''Unknown'';
             effective_times = (case parse_account_times (schedule_times acct) of
                                  Some ts \<Rightarrow> ts
                                | None \<Rightarrow> global_times);
             should_run = ((hour, minute) \<in> set effective_times);
             current_minute_abs = hour * 60 + minute
         in if should_run \<and> last_triggers nm \<noteq> Some current_minute_abs
            then (let (launched, lt) = tick_accounts global_times hour minute rest
                                         (last_triggers(nm \<mapsto> current_minute_abs))
                  in (acct # launched, lt))
            else tick_accounts global_times hour minute rest last_triggers))"

text \<open>
  \<^verbatim>\<open>run_schedule_loop\<close> over a finite run of ticks, each with the wall-clock hour and
  minute it reads: \<^verbatim>\<open>last_triggers\<close> starts empty and lives as long as the loop. The
  result lists, tick by tick, the accounts launched.
\<close>

fun schedule_ticks ::
  "(int \<times> int) list \<Rightarrow> cfg list \<Rightarrow> (int \<times> int) list \<Rightarrow> (string \<rightharpoonup> int) \<Rightarrow> cfg list list" where
  "schedule_ticks global_times accounts [] last_triggers = []"
| "schedule_ticks global_times accounts ((hour, minute) # later) last_triggers =
     (let (launched, lt) = tick_accounts global_times hour minute accounts last_triggers
      in launched # schedule_ticks global_times accounts later lt)"

definition run_schedule_loop :: "(int \<times> int) list \<Rightarrow> cfg list \<Rightarrow> (int \<times> int) list \<Rightarrow> cfg list list" where
  "run_schedule_loop global_times accounts ticks = schedule_ticks global_times accounts ticks Map.empty"

section \<open>The publish endpoint\<close>

text \<open>The JSON body of a publish request: the keys the endpoint and its task read.\<close>

record payload =
  images :: "string list option"
  video :: "string option"
  caption :: "string option"

text \<open>The reply: the HTTP status and the body's text, and whether the background thread was started.\<close>

record reply =
  http_status :: nat
  body :: string
  thread_started :: bool

definition publish :: "cfg list \<Rightarrow> nat \<Rightarrow> payload \<Rightarrow> reply" where
  "publish accounts idx pl =
     (if \<not> idx < length accounts
      then \<lparr>http_status = 400, body = ''Invalid account index'', thread_started = False\<rparr>
      else
        (let acct = accounts ! idx
         in if ctype acct = ''reel'' \<and> str_or (video pl) [] = []
            then \<lparr>http_status = 400, body = ''Missing video'', thread_started = False\<rparr>
            else \<lparr>http_status = 202, body = ''accepted'', thread_started = True\<rparr>))"

text \<open>
  What the started thread does first for a carousel account (\<^verbatim>\<open>background_publish_task\<close>
  and the first line of \<^verbatim>\<open>publish_selected_carousel\<close>): with no slide selected it
  raises, and the task writes the error status.
\<close>

definition background_publish_no_slides :: "cfg \<Rightarrow> payload \<Rightarrow> world \<Rightarrow> world option" where
  "background_publish_no_slides acct pl w =
     (let w1 = save_status (state_prefix acct) ''running'' ''Processing in background...'' w
      in if ctype acct = ''carousel'' \<and> get_or (images pl) [] = []
         then Some (save_status (state_prefix acct) ''error'' ''No slides selected'' w1)
         else None)"

section \<open>Consecutive selections\<close>

text \<open>\<open>n\<close> calls of \<^verbatim>\<open>next_caption\<close> in a row: the captions returned, until one raises.\<close>

fun next_captions :: "nat \<Rightarrow> cfg \<Rightarrow> env \<Rightarrow> world \<Rightarrow> (error + string list) \<times> world" where
  "next_captions 0 c e w = (Inr [], w)"
| "next_captions (Suc n) c e w =
     (case next_caption c e w of
        (Inl err, w1) \<Rightarrow> (Inl err, w1)
      | (Inr cap, w1) \<Rightarrow>
          (case next_captions n c e w1 of
             (Inl err, w2) \<Rightarrow> (Inl err, w2)
           | (Inr caps, w2) \<Rightarrow> (Inr (cap # caps), w2)))"

text \<open>The rotation state of a prefix as stored: the four files.\<close>

definition rotation_files :: "string \<Rightarrow> world \<Rightarrow> content option \<times> content option \<times> content option \<times> content option" where
  "rotation_files prefix w =
     (files w (index_path prefix ''caption''), files w (index_path prefix ''image''),
      files w (image_used_path prefix), files w (video_used_path prefix))"

section \<open>Example inputs\<close>

text \<open>
  A carousel account, an outside in which every call succeeds at once, and an empty
  local directory with no mirror. The witnesses below vary them field by field.
\<close>

definition demo_cfg :: cfg where
  "demo_cfg =
     \<lparr>name = Some ''demo'', state_prefix = ''demo'', ctype = ''carousel'',
      caption_url = ''https://example.com/captions.txt'',
      base_url = Some ''https://cdn.example.com/img/'',
      video_base_url = Some ''https://cdn.example.com/vid'',
      slides_per_post = Some 2, max_images = Some 10,
      access_token_env = Some ''TOKEN'', ig_user_id_env = Some ''IGID'',
      schedule_enabled = Some ''on'', schedule_times = Some ''07:30''\<rparr>"

definition demo_env :: env where
  "demo_env =
     \<lparr>caption_lines = (\<lambda>url. Some [''one'', ''two'', ''three'']),
      getenv = (\<lambda>var. Some ''secret''),
      url_exists = (\<lambda>url. True),
      choice = (\<lambda>k. 1),
      polls = (\<lambda>creation_id i. PollResp (Some ''FINISHED'') None),
      upload_image_reply = (\<lambda>url. Some ''child''),
      upload_reel_reply = (\<lambda>url. Some ''reel''),
      create_carousel_reply = (\<lambda>child_ids. Some ''carousel''),
      publish_reply = (\<lambda>creation_id. Some ''media''),
      permalink_reply = (\<lambda>media_id. Some ''https://example.com/p/1'')\<rparr>"

definition demo_world :: world where
  "demo_world =
     \<lparr>files = Map.empty, remote = Map.empty, pushes = [], heads = [], draws = 0, slept = 0\<rparr>"



section \<open>Failed runs\<close>


text \<open>
  The two used files of a prefix in a state \<open>w\<close> come from the state \<open>w0\<close>: the mirror is
  unchanged, and the files are those of \<open>w0\<close>, or both those that recovery writes from
  \<open>w0\<close>, except that the files in \<open>rs\<close> hold the empty list of a reset.
\<close>

definition used_files_from :: "string \<Rightarrow> world \<Rightarrow> string set \<Rightarrow> world \<Rightarrow> bool" where
  "used_files_from p w0 rs w =
     (remote w = remote w0 \<and>
      (\<exists>wb \<in> {w0, restore_from_remote_if_needed p w0}.
         \<forall>f \<in> {video_used_path p, image_used_path p}.
           files w f = (if f \<in> rs then Some (Used []) else files wb f)))"

section \<open>Properties of the string operations\<close>

lemma digit_char_digit: "d < 10 \<Longrightarrow> is_digit (digit_char d)"
proof -
  assume "d < 10"
  then have "d \<in> {0, 1, 2, 3, 4, 5, 6, 7, 8, 9}" by auto
  then show ?thesis by (auto simp: is_digit_def digit_char_def)
qed

lemma str_of_nat_digits: "\<forall>c \<in> set (str_of_nat n). is_digit c"
proof (induction n rule: str_of_nat.induct)
  case (1 n)
  show ?case
  proof (cases "n < 10")
    case True
    then show ?thesis by (subst str_of_nat.simps) (simp add: digit_char_digit)
  next
    case False
    then show ?thesis using 1 by (subst str_of_nat.simps) (simp add: digit_char_digit)
  qed
qed

lemma str_of_nat_nonempty: "str_of_nat n \<noteq> []"
  by (subst str_of_nat.simps) simp

lemma digit_safe: "is_digit c \<Longrightarrow> c \<in> set always_safe"
  by (auto simp: is_digit_def always_safe_def)

lemma quote_append: "quote (a @ b) safe = quote a safe @ quote b safe"
  by (simp add: quote_def)

lemma quote_safe_id: "\<forall>c \<in> set s. c \<in> set always_safe \<Longrightarrow> quote s safe = s"
  by (induction s) (auto simp: quote_def quote_char_def)

lemma str_of_int_safe: "\<forall>c \<in> set (str_of_int i). c \<in> set always_safe"
  using str_of_nat_digits digit_safe by (auto simp: str_of_int_def always_safe_def)

lemma quote_image_name: "quote (image_name_for i) ''()'' = ''img%20('' @ str_of_int i @ '').jpg''"
proof -
  have a: "quote ''img ('' ''()'' = ''img%20(''"
    by (simp add: quote_def quote_char_def always_safe_def hex_char_def)
  have b: "quote '').jpg'' ''()'' = '').jpg''"
    by (simp add: quote_def quote_char_def always_safe_def hex_char_def)
  have c: "quote (str_of_int i) ''()'' = str_of_int i"
    by (rule quote_safe_id) (rule str_of_int_safe)
  show ?thesis
    unfolding image_name_for_def by (simp only: quote_append a b c)
qed

lemma digit_val_digit_char: "d < 10 \<Longrightarrow> digit_val (digit_char d) = d"
proof -
  assume "d < 10"
  then have "d \<in> {0, 1, 2, 3, 4, 5, 6, 7, 8, 9}" by auto
  then show ?thesis by (auto simp: digit_val_def digit_char_def)
qed

lemma int_of_digits_snoc: "int_of_digits (s @ [c]) = 10 * int_of_digits s + digit_val c"
  by (simp add: int_of_digits_def)

text \<open>Reading a rendered number back gives the number.\<close>

lemma int_of_digits_str: "int_of_digits (str_of_nat n) = n"
proof (induction n rule: str_of_nat.induct)
  case (1 n)
  show ?case
  proof (cases "n < 10")
    case True
    then show ?thesis
      by (subst str_of_nat.simps) (simp add: int_of_digits_def digit_val_digit_char)
  next
    case False
    then show ?thesis using 1
      by (subst str_of_nat.simps) (simp add: int_of_digits_snoc digit_val_digit_char)
  qed
qed

lemma paren_digits_at_name:
  "paren_digits_at (CHR ''('' # str_of_nat n @ '').jpg'') = Some (str_of_nat n)"
proof -
  have nd: "\<not> is_digit CHR '')''" by (simp add: is_digit_def)
  have t: "takeWhile is_digit (str_of_nat n @ '').jpg'') = str_of_nat n"
    using str_of_nat_digits nd by (simp add: takeWhile_append2)
  have d: "dropWhile is_digit (str_of_nat n @ '').jpg'') = '').jpg''"
    using str_of_nat_digits nd by (simp add: dropWhile_append2)
  show ?thesis
    by (simp add: paren_digits_at_def t d str_of_nat_nonempty del: append.simps)
qed

lemma re_search_image_name:
  "0 \<le> i \<Longrightarrow> re_search_paren_digits (image_name_for i) = Some (str_of_nat (nat i))"
  using paren_digits_at_name [of "nat i"]
  by (simp add: image_name_for_def str_of_int_def paren_digits_at_def)

section \<open>C10: the two URL encodings agree\<close>

text \<open>
  C10. For every image index \<open>n \<ge> 1\<close> the quirk branch's hand-built
  \<^verbatim>\<open>img%20(n).jpg\<close> equals \<^verbatim>\<open>quote("img (n).jpg", safe="()")\<close>. So, whatever the
  state prefix, the sequential selector, the random selector (on the catalog name of
  index \<open>n\<close>) and the preview all produce the same encoded name.
\<close>

theorem encodings_agree:
  assumes "1 \<le> n"
  shows "''img%20('' @ str_of_int n @ '').jpg'' = quote (image_name_for n) ''()''
       \<and> encode_sequential prefix n = encode_preview n
       \<and> encode_random prefix (image_name_for n) = encode_preview n"
proof -
  have q: "quote (image_name_for n) ''()'' = ''img%20('' @ str_of_int n @ '').jpg''"
    by (rule quote_image_name)
  have s: "encode_sequential prefix n = encode_preview n"
    by (simp only: encode_sequential_def encode_preview_def q if_cancel)
  have "0 \<le> n" using assms by simp
  then have r: "re_search_paren_digits (image_name_for n) = Some (str_of_nat (nat n))"
    by (rule re_search_image_name)
  have rt: "int (int_of_digits (str_of_nat (nat n))) = n"
    using assms by (simp add: int_of_digits_str)
  have "encode_random prefix (image_name_for n) = encode_preview n"
    by (simp add: encode_random_def encode_preview_def q r rt)
  with q s show ?thesis by simp
qed

theorem encodings_agree_witness:
  "(1::int) \<le> 12
   \<and> encode_sequential ''Ruthless_a'' 12 = encode_preview 12
   \<and> encode_random ''Ruthless_a'' (image_name_for 12) = encode_preview 12
   \<and> encode_sequential ''plain_b'' 12 = encode_preview 12"
  using encodings_agree [of 12 "''Ruthless_a''"] encodings_agree [of 12 "''plain_b''"]
  by simp

section \<open>Properties of the state helpers\<close>

lemma paths_distinct [simp]:
  "video_used_path p \<noteq> image_used_path p" "image_used_path p \<noteq> video_used_path p"
  "index_path p ''caption'' \<noteq> index_path p ''image''" "index_path p ''image'' \<noteq> index_path p ''caption''"
  "index_path p ''caption'' \<noteq> video_used_path p" "video_used_path p \<noteq> index_path p ''caption''"
  "index_path p ''caption'' \<noteq> image_used_path p" "image_used_path p \<noteq> index_path p ''caption''"
  "index_path p ''image'' \<noteq> video_used_path p" "video_used_path p \<noteq> index_path p ''image''"
  "index_path p ''image'' \<noteq> image_used_path p" "image_used_path p \<noteq> index_path p ''image''"
  "status_path p \<noteq> video_used_path p" "video_used_path p \<noteq> status_path p"
  "status_path p \<noteq> image_used_path p" "image_used_path p \<noteq> status_path p"
  "status_path p \<noteq> index_path p ''caption''" "index_path p ''caption'' \<noteq> status_path p"
  "status_path p \<noteq> index_path p ''image''" "index_path p ''image'' \<noteq> status_path p"
  by (simp_all add: video_used_path_def image_used_path_def index_path_def status_path_def)

lemma files_save_last_index [simp]:
  "files (save_last_index p k v sync w) = (files w)(index_path p k \<mapsto> LastIndex v)"
  by (simp add: save_last_index_def start_push_def Let_def)

lemma files_save_used_list [simp]:
  "files (save_used_list p u sync w) = (files w)(video_used_path p \<mapsto> Used u)"
  by (simp add: save_used_list_def start_push_def Let_def)

lemma files_save_image_used_list [simp]:
  "files (save_image_used_list p u sync w) = (files w)(image_used_path p \<mapsto> Used u)"
  by (simp add: save_image_used_list_def start_push_def Let_def)

lemma files_save_status [simp]:
  "files (save_status p s m w) = (files w)(status_path p \<mapsto> Status s m)"
  by (simp add: save_status_def)

lemma remote_save [simp]:
  "remote (save_last_index p k v sync w) = remote w"
  "remote (save_used_list p u sync w) = remote w"
  "remote (save_image_used_list p u sync w) = remote w"
  "remote (save_status p s m w) = remote w"
  by (simp_all add: save_last_index_def save_used_list_def save_image_used_list_def
      save_status_def start_push_def Let_def)

lemma pushes_save_unsynced [simp]:
  "pushes (save_last_index p k v False w) = pushes w"
  "pushes (save_used_list p u False w) = pushes w"
  "pushes (save_image_used_list p u False w) = pushes w"
  by (simp_all add: save_last_index_def save_used_list_def save_image_used_list_def)

lemma load_after_save:
  "load_last_index p k (save_last_index p k v sync w) = (v, save_last_index p k v sync w)"
  by (simp add: load_last_index_def Let_def)

lemma restore_other_fields [simp]:
  "remote (restore_from_remote_if_needed p w) = remote w"
  "pushes (restore_from_remote_if_needed p w) = pushes w"
  "heads (restore_from_remote_if_needed p w) = heads w"
  "draws (restore_from_remote_if_needed p w) = draws w"
  "slept (restore_from_remote_if_needed p w) = slept w"
  by (simp_all add: restore_from_remote_if_needed_def save_last_index_def save_used_list_def
      save_image_used_list_def Let_def split: option.splits)

lemma restore_as_files_update:
  "restore_from_remote_if_needed p w = w\<lparr>files := files (restore_from_remote_if_needed p w)\<rparr>"
  by (rule world.equality) simp_all

lemma files_restore:
  "files (restore_from_remote_if_needed p w) =
     (if files w (video_used_path p) \<noteq> None \<or> files w (image_used_path p) \<noteq> None then files w
      else case remote w p of
             None \<Rightarrow> files w
           | Some r \<Rightarrow>
               (\<lambda>f. if f = index_path p ''image'' \<and> snap_image_idx r \<noteq> None
                      then map_option LastIndex (snap_image_idx r)
                    else if f = index_path p ''caption'' \<and> snap_caption_idx r \<noteq> None
                      then map_option LastIndex (snap_caption_idx r)
                    else if f = image_used_path p \<and> snap_image_used r \<noteq> None
                      then map_option Used (snap_image_used r)
                    else if f = video_used_path p \<and> snap_video_used r \<noteq> None
                      then map_option Used (snap_video_used r)
                    else files w f))"
  by (auto simp: restore_from_remote_if_needed_def snapshot_empty_def Let_def fun_eq_iff
      split: option.splits)

lemma restore_idem:
  "restore_from_remote_if_needed p (restore_from_remote_if_needed p w) = restore_from_remote_if_needed p w"
proof -
  let ?w1 = "restore_from_remote_if_needed p w"
  have "files (restore_from_remote_if_needed p ?w1) = files ?w1"
    by (subst files_restore) (auto simp: files_restore fun_eq_iff split: option.splits)
  then show ?thesis
    by (intro world.equality) simp_all
qed

lemma demo_prefix [simp]: "state_prefix demo_cfg = ''demo''" by (simp add: demo_cfg_def)


section \<open>C7: recovery is idempotent and pushes nothing\<close>

text \<open>
  C7. When the four local rotation files of a prefix are absent and the mirror has an
  entry for it, running \<^verbatim>\<open>restore_from_remote_if_needed\<close> twice leaves the same state
  as running it once, the restore starts no push thread, and the files it writes hold the
  entry's values (a key the entry lacks leaves its file absent).
\<close>

theorem restore_idempotent:
  assumes "files w (index_path p ''caption'') = None"
    and "files w (index_path p ''image'') = None"
    and "files w (image_used_path p) = None"
    and "files w (video_used_path p) = None"
    and "remote w p = Some r"
  shows "restore_from_remote_if_needed p (restore_from_remote_if_needed p w)
           = restore_from_remote_if_needed p w
       \<and> pushes (restore_from_remote_if_needed p w) = pushes w
       \<and> rotation_files p (restore_from_remote_if_needed p w)
           = (map_option LastIndex (snap_caption_idx r), map_option LastIndex (snap_image_idx r),
              map_option Used (snap_image_used r), map_option Used (snap_video_used r))"
proof -
  have "rotation_files p (restore_from_remote_if_needed p w)
           = (map_option LastIndex (snap_caption_idx r), map_option LastIndex (snap_image_idx r),
              map_option Used (snap_image_used r), map_option Used (snap_video_used r))"
    using assms by (auto simp: rotation_files_def files_restore)
  then show ?thesis by (simp add: restore_idem)
qed

theorem restore_idempotent_witness:
  "files demo_world (index_path ''demo'' ''caption'') = None
   \<and> files demo_world (video_used_path ''demo'') = None
   \<and> (let w = demo_world\<lparr>remote := [''demo'' \<mapsto>
                \<lparr>snap_video_used = Some [''vid.mp4''], snap_image_used = None,
                 snap_caption_idx = Some 4, snap_image_idx = None\<rparr>]\<rparr>
      in restore_from_remote_if_needed ''demo'' (restore_from_remote_if_needed ''demo'' w)
           = restore_from_remote_if_needed ''demo'' w
         \<and> pushes (restore_from_remote_if_needed ''demo'' w) = []
         \<and> rotation_files ''demo'' (restore_from_remote_if_needed ''demo'' w)
             = (Some (LastIndex 4), None, None, Some (Used [''vid.mp4''])))"
  using restore_idempotent [of "demo_world\<lparr>remote := [''demo'' \<mapsto>
                \<lparr>snap_video_used = Some [''vid.mp4''], snap_image_used = None,
                 snap_caption_idx = Some 4, snap_image_idx = None\<rparr>]\<rparr>" "''demo''"
          "\<lparr>snap_video_used = Some [''vid.mp4''], snap_image_used = None,
                 snap_caption_idx = Some 4, snap_image_idx = None\<rparr>"]
  by (simp add: demo_world_def Let_def)


section \<open>C6: the carousel pointer at the catalog bound\<close>

lemma encode_sequential_quote: "encode_sequential p i = ''img%20('' @ str_of_int i @ '').jpg''"
  by (simp add: encode_sequential_def quote_image_name)

lemma str_small: "str_of_int 9 = ''9''" "str_of_int 10 = ''10''" "str_of_int 1 = ''1''" "str_of_int 2 = ''2''"
  by (simp_all add: str_of_int_def str_of_nat.simps digit_char_def)

lemma upto_1_2: "[1..2::int] = [1, 2]"
  by (simp add: upto.simps)

text \<open>
  C6. With \<^verbatim>\<open>slides_per_post = 2\<close>, \<^verbatim>\<open>max_images = 10\<close> and the stored image
  pointer 8, \<^verbatim>\<open>next_images\<close> returns the URLs of the images 9 and 10 and stores the
  pointer 10 (the bound itself, which the selection's wrap reads as 0), so the next call
  returns the images 1 and 2.
\<close>

theorem next_images_wraps_at_bound:
  assumes "slides_per_post c = Some 2"
    and "max_images c = Some 10"
    and "norm_base (base_url c) \<noteq> []"
    and "fst (load_last_index (state_prefix c) ''image'' w) = 8"
  shows "fst (next_images c w)
           = Inr [norm_base (base_url c) @ ''/img%20(9).jpg'', norm_base (base_url c) @ ''/img%20(10).jpg'']
       \<and> fst (load_last_index (state_prefix c) ''image'' (snd (next_images c w))) = 10
       \<and> fst (next_images c (snd (next_images c w)))
           = Inr [norm_base (base_url c) @ ''/img%20(1).jpg'', norm_base (base_url c) @ ''/img%20(2).jpg'']"
proof -
  obtain w1 where l: "load_last_index (state_prefix c) ''image'' w = (8, w1)"
    using assms(4) by (cases "load_last_index (state_prefix c) ''image'' w") simp
  let ?w2 = "save_last_index (state_prefix c) ''image'' 10 True w1"
  have first: "next_images c w
      = (Inr [norm_base (base_url c) @ ''/img%20(9).jpg'', norm_base (base_url c) @ ''/img%20(10).jpg''], ?w2)"
    using assms(1-3) l
    by (simp add: next_images_def get_or_def upto_1_2 encode_sequential_quote str_small)
  have l2: "load_last_index (state_prefix c) ''image'' ?w2 = (10, ?w2)"
    by (rule load_after_save)
  have second: "fst (next_images c ?w2)
      = Inr [norm_base (base_url c) @ ''/img%20(1).jpg'', norm_base (base_url c) @ ''/img%20(2).jpg'']"
    using assms(1-3) l2
    by (simp add: next_images_def get_or_def upto_1_2 encode_sequential_quote str_small)
  show ?thesis using first l2 second by simp
qed

lemma norm_demo: "norm_base (base_url demo_cfg) = ''https://cdn.example.com/img''"
  by (simp add: demo_cfg_def norm_base_def rstrip_slash_def)

theorem next_images_wraps_at_bound_witness:
  "slides_per_post demo_cfg = Some 2 \<and> max_images demo_cfg = Some 10
   \<and> norm_base (base_url demo_cfg) \<noteq> []
   \<and> (let w = save_last_index ''demo'' ''image'' 8 False demo_world
      in fst (load_last_index ''demo'' ''image'' w) = 8
       \<and> fst (next_images demo_cfg w)
           = Inr [''https://cdn.example.com/img/img%20(9).jpg'', ''https://cdn.example.com/img/img%20(10).jpg'']
       \<and> fst (load_last_index ''demo'' ''image'' (snd (next_images demo_cfg w))) = 10
       \<and> fst (next_images demo_cfg (snd (next_images demo_cfg w)))
           = Inr [''https://cdn.example.com/img/img%20(1).jpg'', ''https://cdn.example.com/img/img%20(2).jpg''])"
proof -
  have h: "fst (load_last_index (state_prefix demo_cfg) ''image''
              (save_last_index ''demo'' ''image'' 8 False demo_world)) = 8"
    by (simp add: load_after_save)
  have a: "slides_per_post demo_cfg = Some 2" "max_images demo_cfg = Some 10"
    by (simp_all add: demo_cfg_def)
  have b: "norm_base (base_url demo_cfg) \<noteq> []" by (simp add: norm_demo)
  show ?thesis
    using next_images_wraps_at_bound [OF a b h] a b h
    by (simp add: norm_demo Let_def)
qed

section \<open>C2: readiness polling at the attempt cap\<close>

lemma wait_loop_no_terminal:
  "(\<forall>j<n. case reply (i + j) of PollExc \<Rightarrow> True
            | PollResp sc st \<Rightarrow> poll_status sc st \<noteq> ''FINISHED'' \<and> poll_status sc st \<noteq> ''ERROR'')
   \<Longrightarrow> wait_loop reply delay n i w =
       (Inl (NameError ''name 'last_resp' is not defined''), w\<lparr>slept := slept w + n * delay\<rparr>)"
proof (induction n arbitrary: i w)
  case 0
  then show ?case by simp
next
  case (Suc n)
  have step: "\<forall>j<n. case reply (Suc i + j) of PollExc \<Rightarrow> True
            | PollResp sc st \<Rightarrow> poll_status sc st \<noteq> ''FINISHED'' \<and> poll_status sc st \<noteq> ''ERROR''"
  proof (intro allI impI)
    fix j assume "j < n"
    then have "Suc j < Suc n" by simp
    with Suc.prems have "case reply (i + Suc j) of PollExc \<Rightarrow> True
            | PollResp sc st \<Rightarrow> poll_status sc st \<noteq> ''FINISHED'' \<and> poll_status sc st \<noteq> ''ERROR''"
      by blast
    then show "case reply (Suc i + j) of PollExc \<Rightarrow> True
            | PollResp sc st \<Rightarrow> poll_status sc st \<noteq> ''FINISHED'' \<and> poll_status sc st \<noteq> ''ERROR''"
      by simp
  qed
  have first: "case reply i of PollExc \<Rightarrow> True
            | PollResp sc st \<Rightarrow> poll_status sc st \<noteq> ''FINISHED'' \<and> poll_status sc st \<noteq> ''ERROR''"
    using Suc.prems [rule_format, of 0] by simp
  show ?case
    using first Suc.IH [OF step, of "w\<lparr>slept := slept w + delay\<rparr>"]
    by (cases "reply i") (simp_all add: add.assoc)
qed

lemma in_progress_status: "poll_status (Some ''IN_PROGRESS'') None = ''IN_PROGRESS''"
  by (simp add: poll_status_def str_or_def upper_def upper_char_def)


text \<open>
  C2. Evaluation of \<^verbatim>\<open>wait_until_ready\<close> with its defaults (600 attempts, 2 seconds)
  on a container whose every poll reports a status that is neither FINISHED nor ERROR:
  after 600 polls and 1200 seconds of sleep the function raises NameError instead of
  returning a failure.
\<close>

theorem wait_until_ready_exhausted_raises:
  "wait_until_ready cid (e\<lparr>polls := \<lambda>c i. PollResp (Some ''IN_PROGRESS'') None\<rparr>) 600 2 w =
     (Inl (NameError ''name 'last_resp' is not defined''), w\<lparr>slept := slept w + 1200\<rparr>)"
proof -
  have "wait_loop (\<lambda>i. PollResp (Some ''IN_PROGRESS'') None) 2 600 0 w =
     (Inl (NameError ''name 'last_resp' is not defined''), w\<lparr>slept := slept w + 600 * 2\<rparr>)"
    by (rule wait_loop_no_terminal) (simp add: in_progress_status)
  then show ?thesis by (simp add: wait_until_ready_def)
qed


section \<open>C9: validation at the publish endpoint\<close>

text \<open>
  C9. Evaluation of the publish endpoint on a payload without content: for a carousel
  account the request is accepted with status 202 and the background thread is started;
  for a reel account it is refused with status 400.
\<close>

theorem publish_carousel_without_images_accepted:
  "publish [c\<lparr>ctype := ''carousel''\<rparr>] 0 \<lparr>images = None, video = None, caption = None\<rparr> =
     \<lparr>http_status = 202, body = ''accepted'', thread_started = True\<rparr>
   \<and> publish [c\<lparr>ctype := ''reel''\<rparr>] 0 \<lparr>images = None, video = None, caption = None\<rparr> =
     \<lparr>http_status = 400, body = ''Missing video'', thread_started = False\<rparr>"
  by (simp add: publish_def str_or_def)

section \<open>C5: the caption pointer over consecutive calls\<close>

lemma next_caption_step:
  assumes "caption_lines e (caption_url c) = Some lines" and "lines \<noteq> []"
    and "load_last_index (state_prefix c) ''caption'' w = (start, w1)"
  shows "next_caption c e w =
           (Inr (lines ! nat (start mod int (length lines))),
            save_last_index (state_prefix c) ''caption'' (start + 1) True w1)"
  using assms by (simp add: next_caption_def)

lemma map_upt_shift: "map f [0..<Suc n] = f 0 # map (\<lambda>i. f (Suc i)) [0..<n]"
  by (simp only: upt_conv_Cons [of 0 "Suc n"] map_Suc_upt [symmetric] list.map map_map comp_def)


text \<open>
  C5, as the code has it. For a non-empty caption list of size K and a stored caption
  pointer \<open>start\<close>, n consecutive calls of \<^verbatim>\<open>next_caption\<close> return the captions at
  the indices start, start + 1, ... each taken mod K, and afterwards the stored pointer
  is start + n itself: line 272 stores \<^verbatim>\<open>idx + 1\<close>, and the modulo is applied only
  when the pointer is read.
\<close>

theorem next_caption_sequence:
  assumes "caption_lines e (caption_url c) = Some lines"
    and "lines \<noteq> []"
    and "fst (load_last_index (state_prefix c) ''caption'' w) = start"
  shows "fst (next_captions n c e w)
           = Inr (map (\<lambda>i. lines ! nat ((start + int i) mod int (length lines))) [0..<n])
       \<and> fst (load_last_index (state_prefix c) ''caption'' (snd (next_captions n c e w)))
           = start + int n"
  using assms(3)
proof (induction n arbitrary: w start)
  case 0
  then show ?case by simp
next
  case (Suc n)
  obtain w1 where l: "load_last_index (state_prefix c) ''caption'' w = (start, w1)"
    using Suc.prems by (cases "load_last_index (state_prefix c) ''caption'' w") simp
  let ?w2 = "save_last_index (state_prefix c) ''caption'' (start + 1) True w1"
  have step: "next_caption c e w = (Inr (lines ! nat (start mod int (length lines))), ?w2)"
    by (rule next_caption_step [OF assms(1,2) l])
  have "fst (load_last_index (state_prefix c) ''caption'' ?w2) = start + 1"
    by (simp add: load_after_save)
  from Suc.IH [OF this] obtain caps w3 where
    rest: "next_captions n c e ?w2 = (Inr caps, w3)"
    and caps: "caps = map (\<lambda>i. lines ! nat ((start + 1 + int i) mod int (length lines))) [0..<n]"
    and ptr: "fst (load_last_index (state_prefix c) ''caption'' w3) = start + 1 + int n"
    by (cases "next_captions n c e ?w2") auto
  have shift: "map (\<lambda>i. lines ! nat ((start + int i) mod int (length lines))) [0..<Suc n]
      = lines ! nat (start mod int (length lines)) # caps"
    unfolding caps by (subst map_upt_shift) (simp add: ac_simps)
  show ?case
    using step rest ptr shift by (simp del: upt_Suc)
qed

theorem next_caption_sequence_witness:
  "caption_lines demo_env (caption_url demo_cfg) = Some [''one'', ''two'', ''three'']
   \<and> (let w = save_last_index ''demo'' ''caption'' 2 False demo_world
      in fst (load_last_index ''demo'' ''caption'' w) = 2
       \<and> fst (next_captions 2 demo_cfg demo_env w) = Inr [''three'', ''one'']
       \<and> fst (load_last_index ''demo'' ''caption'' (snd (next_captions 2 demo_cfg demo_env w))) = 4)"
proof -
  have a: "caption_lines demo_env (caption_url demo_cfg) = Some [''one'', ''two'', ''three'']"
    by (simp add: demo_env_def)
  have b: "[''one'', ''two'', ''three''] \<noteq> ([] :: string list)" by simp
  have h: "fst (load_last_index (state_prefix demo_cfg) ''caption''
              (save_last_index ''demo'' ''caption'' 2 False demo_world)) = 2"
    by (simp add: load_after_save)
  have two: "[0..<2] = [0, Suc 0]" by (simp add: upt_rec)
  show ?thesis
    using next_caption_sequence [OF a b h, of 2] a h
    by (simp add: Let_def two)
qed


text \<open>
  C5 as stated fails: with three captions and the stored pointer 2, one call leaves the
  stored pointer 3, not (2 + 1) mod 3 = 0.
\<close>

theorem caption_pointer_not_reduced:
  "fst (load_last_index ''demo'' ''caption''
          (snd (next_captions 1 demo_cfg demo_env (save_last_index ''demo'' ''caption'' 2 False demo_world))))
     \<noteq> (2 + 1) mod int (length [''one'', ''two'', ''three''])"
proof -
  have a: "caption_lines demo_env (caption_url demo_cfg) = Some [''one'', ''two'', ''three'']"
    by (simp add: demo_env_def)
  have l: "load_last_index (state_prefix demo_cfg) ''caption''
              (save_last_index ''demo'' ''caption'' 2 False demo_world)
            = (2, save_last_index ''demo'' ''caption'' 2 False demo_world)"
    by (simp add: load_after_save)
  have "next_caption demo_cfg demo_env (save_last_index ''demo'' ''caption'' 2 False demo_world)
      = (Inr ([''one'', ''two'', ''three''] ! nat (2 mod int (length [''one'', ''two'', ''three'']))),
         save_last_index (state_prefix demo_cfg) ''caption'' (2 + 1) True
           (save_last_index ''demo'' ''caption'' 2 False demo_world))"
    by (rule next_caption_step [OF a _ l]) simp
  then show ?thesis
    by (simp add: load_after_save)
qed

section \<open>C8: the scheduler's per-minute record\<close>

lemma parse_single_time: "parse_account_times (Some ''07:30'') = Some [(7, 30)]"
  by (simp add: parse_account_times_def strip_def is_space_def parse_time_entry_def py_int_def
     is_digit_def int_of_digits_def digit_val_def List.map_filter_def)


text \<open>
  C8. Evaluation of the scheduler loop for one enabled account whose only fire time is
  07:30, over five ticks: two at 07:30, one at 07:31, and two at the next 07:30 the clock
  shows (a day later). The first tick launches the account and records minute 450; the
  second is stopped by the record. The record holds the minute of the day without the
  date, so both ticks of the next day's 07:30 are stopped as well.
\<close>

theorem scheduler_skips_same_minute_next_day:
  "run_schedule_loop global_times
     [c\<lparr>name := Some ''a'', schedule_enabled := Some ''on'', schedule_times := Some ''07:30''\<rparr>]
     [(7, 30), (7, 30), (7, 31), (7, 30), (7, 30)]
   = [[c\<lparr>name := Some ''a'', schedule_enabled := Some ''on'', schedule_times := Some ''07:30''\<rparr>],
      [], [], [], []]"
  by (simp add: run_schedule_loop_def parse_single_time get_or_def)


section \<open>C3: selection and marking after exhaustion\<close>

lemma catalog_video_1: "catalog (demo_cfg\<lparr>ctype := ''reel'', max_images := Some 1\<rparr>) Video = [''vid.mp4'', ''vid (1).mp4'']"
  by (simp add: catalog_def get_or_def video_name_for_def str_of_int_def str_of_nat.simps digit_char_def upto.simps)

lemma quote_vid_1: "quote ''vid (1).mp4'' ''()'' = ''vid%20(1).mp4''"
  by (simp add: quote_def quote_char_def always_safe_def hex_char_def)

lemma norm_demo_video: "norm_base (video_base_url demo_cfg) = ''https://cdn.example.com/vid''"
  by (simp add: demo_cfg_def norm_base_def rstrip_slash_def)

lemma last_segment_demo: "last_segment ''https://cdn.example.com/vid/vid%20(1).mp4'' = ''vid%20(1).mp4''"
  by (simp add: last_segment_def)

lemma exhausted_pick:
  assumes "files w (video_used_path ''demo'') = Some (Used [''vid.mp4'', ''vid (1).mp4''])"
  shows "get_random_candidate (demo_cfg\<lparr>ctype := ''reel'', max_images := Some 1\<rparr>) Video demo_env w
   = (Inr (Some (''https://cdn.example.com/vid/vid%20(1).mp4'', ''vid (1).mp4'')),
      (save_used_list ''demo'' [] True w)
        \<lparr>draws := Suc (draws (save_used_list ''demo'' [] True w)),
         heads := heads (save_used_list ''demo'' [] True w) @ [''https://cdn.example.com/vid/vid%20(1).mp4'']\<rparr>)"
proof -
  have ld: "load_used_list ''demo'' w = ([''vid.mp4'', ''vid (1).mp4''], w)"
    using assms by (simp add: load_used_list_def Let_def)
  have ch: "choice demo_env k = 1" "url_exists demo_env u" for k u
    by (simp_all add: demo_env_def)
  have nm: "cfg_name (demo_cfg\<lparr>ctype := ''reel'', max_images := Some 1\<rparr>) = Inr ''demo''"
    by (simp add: cfg_name_def demo_cfg_def)
  show ?thesis
    by (simp add: get_random_candidate_def catalog_video_1 load_used_def ld nm
      reset_used_def candidate_url_def quote_vid_1 norm_demo_video Let_def ch
      numeral_eq_Suc)
qed

lemma finished_status: "poll_status (Some ''FINISHED'') None = ''FINISHED''"
  by (simp add: poll_status_def str_or_def upper_def upper_char_def)

lemma wait_loop_first_finished:
  "reply i = PollResp sc st \<Longrightarrow> poll_status sc st = ''FINISHED''
   \<Longrightarrow> wait_loop reply d (Suc n) i w = (Inr (True, reply i), w)"
  by simp

lemma wait_demo: "wait_until_ready cid demo_env 600 2 w = (Inr (True, PollResp (Some ''FINISHED'') None), w)"
proof -
  have "wait_loop (\<lambda>i. PollResp (Some ''FINISHED'') None) 2 (Suc 599) 0 w
      = (Inr (True, PollResp (Some ''FINISHED'') None), w)"
    by (rule wait_loop_first_finished [where sc = "Some ''FINISHED''" and st = None])
       (simp_all add: finished_status)
  then show ?thesis by (simp add: wait_until_ready_def demo_env_def)
qed

lemma token_demo: "cfg_token_igid (demo_cfg\<lparr>ctype := t, max_images := mi\<rparr>) demo_env = Inr (''secret'', ''secret'')"
  by (simp add: cfg_token_igid_def demo_cfg_def demo_env_def str_or_def Let_def)

lemma next_caption_demo_first:
  assumes "files w (index_path ''demo'' ''caption'') = None"
    and "files w (video_used_path ''demo'') \<noteq> None \<or> files w (image_used_path ''demo'') \<noteq> None \<or> remote w ''demo'' = None"
  shows "next_caption (demo_cfg\<lparr>ctype := t, max_images := mi\<rparr>) demo_env w
     = (Inr ''one'', save_last_index ''demo'' ''caption'' 1 True w)"
  using assms
  by (auto simp add: next_caption_def load_last_index_def restore_from_remote_if_needed_def Let_def
        demo_env_def demo_cfg_def)

lemma demo_env_replies:
  "upload_reel_reply demo_env u = Some ''reel''" "publish_reply demo_env cr = Some ''media''"
  "permalink_reply demo_env md = Some ''https://example.com/p/1''"
  "upload_image_reply demo_env u = Some ''child''" "create_carousel_reply demo_env ids = Some ''carousel''"
  by (simp_all add: demo_env_def)


text \<open>
  C3. Evaluation of a scheduled reel run on the catalog \<^verbatim>\<open>vid.mp4, vid (1).mp4\<close> with
  both names in the persisted used list. \<^verbatim>\<open>get_random_candidate\<close> resets the list to
  empty and picks \<^verbatim>\<open>vid (1).mp4\<close>; the run publishes, and its marking step leaves the
  used list holding one name, the last segment of the URL, \<^verbatim>\<open>vid%20(1).mp4\<close>, which
  is not the chosen catalog name.
\<close>

theorem random_reel_marks_encoded_name:
  "fst (get_random_candidate (demo_cfg\<lparr>ctype := ''reel'', max_images := Some 1\<rparr>) Video demo_env
         (save_used_list ''demo'' [''vid.mp4'', ''vid (1).mp4''] False demo_world))
     = Inr (Some (''https://cdn.example.com/vid/vid%20(1).mp4'', ''vid (1).mp4''))
   \<and> files (snd (get_random_candidate (demo_cfg\<lparr>ctype := ''reel'', max_images := Some 1\<rparr>) Video demo_env
         (save_used_list ''demo'' [''vid.mp4'', ''vid (1).mp4''] False demo_world)))
       (video_used_path ''demo'') = Some (Used [])
   \<and> fst (run_account (demo_cfg\<lparr>ctype := ''reel'', max_images := Some 1\<rparr>) Schedule demo_env
         (save_used_list ''demo'' [''vid.mp4'', ''vid (1).mp4''] False demo_world))
     = Some (''media'', ''https://example.com/p/1'')
   \<and> files (snd (run_account (demo_cfg\<lparr>ctype := ''reel'', max_images := Some 1\<rparr>) Schedule demo_env
         (save_used_list ''demo'' [''vid.mp4'', ''vid (1).mp4''] False demo_world)))
       (video_used_path ''demo'') = Some (Used [''vid%20(1).mp4''])"
proof -
  let ?c = "demo_cfg\<lparr>ctype := ''reel'', max_images := Some 1\<rparr>"
  let ?w0 = "save_used_list ''demo'' [''vid.mp4'', ''vid (1).mp4''] False demo_world"
  have p: "state_prefix ?c = ''demo''" "ctype ?c \<noteq> ''carousel''" by (simp_all add: demo_cfg_def)
  have nm: "cfg_name ?c = Inr ''demo''" by (simp add: cfg_name_def demo_cfg_def)
  have pick: "get_random_candidate ?c Video demo_env ?w0
      = (Inr (Some (''https://cdn.example.com/vid/vid%20(1).mp4'', ''vid (1).mp4'')),
      (save_used_list ''demo'' [] True ?w0)
        \<lparr>draws := Suc (draws (save_used_list ''demo'' [] True ?w0)),
         heads := heads (save_used_list ''demo'' [] True ?w0) @ [''https://cdn.example.com/vid/vid%20(1).mp4'']\<rparr>)"
    by (rule exhausted_pick) simp
  have f0: "files demo_world = Map.empty" "remote demo_world = Map.empty" by (simp_all add: demo_world_def)
  have run: "fst (run_account ?c Schedule demo_env ?w0) = Some (''media'', ''https://example.com/p/1'')
     \<and> files (snd (run_account ?c Schedule demo_env ?w0)) (video_used_path ''demo'')
          = Some (Used [''vid%20(1).mp4''])"
    by (simp add: run_account_def run_account_body_def reel_to_publish_def select_reel_def
        pick_video_def p nm Let_def
        exhausted_pick next_caption_demo_first upload_reel_def token_demo demo_env_replies
        wait_demo publish_creation_def fetch_permalink_def str_or_def mark_video_used_def
        load_used_list_def last_segment_demo f0)
  show ?thesis using pick run by simp
qed

section \<open>C4: the probe budget of the random selector\<close>











section \<open>C1: what a failed run leaves of the used lists\<close>





lemma used_path_cases: "used_path k p = video_used_path p \<or> used_path k p = image_used_path p"
  by (cases k) (simp_all add: used_path_def)


lemma remote_reset_used [simp]: "remote (reset_used k p w) = remote w"
  by (cases k) (simp_all add: reset_used_def)












text \<open>What a loader returns depends on the two used files and the mirror only.\<close>

lemma load_used_value:
  "fst (load_used k p w) =
     (case files (if files w (used_path k p) = None then restore_from_remote_if_needed p w else w)
             (used_path k p) of
        Some (Used u) \<Rightarrow> u
      | _ \<Rightarrow> [])"
  by (cases k)
     (auto simp: load_used_def load_used_list_def image_used_list_def used_path_def Let_def
        split: option.splits content.splits)




lemma used_files_load_reset:
  assumes "used_files_from p w0 rs w" and "used_path k p \<in> rs"
  shows "fst (load_used k p w) = []"
proof -
  have "files w (used_path k p) = Some (Used [])"
    using assms used_path_cases [of k p] by (auto simp: used_files_from_def)
  then show ?thesis by (simp add: load_used_value)
qed






























end
